theory Spec2Isabelle
  imports Main "HOL-Library.Sublist"
begin

section \<open>The device-control screen: data\<close>

text \<open>
  The component \<open>DeviceControl\<close> keeps four pieces of React state that matter here
  (\<open>isScanning\<close>, \<open>connectedDevice\<close>, \<open>devices\<close>, \<open>breathingMode\<close>) and talks to
  three outside parties: the BLE binding, the permission dialog and the alert/console
  channel. The handlers are modelled as functions from the state of the render they were
  created in to the next state, together with the ordered list of calls they made to the
  outside and the way their promise settled. What the outside answers (a resolved or
  rejected promise of the BLE binding, the statuses of the permission dialog) is a
  parameter of the handler.
\<close>

text \<open>A scanned peripheral: \<open>device.id\<close> and \<open>device.name\<close> (which the binding leaves
  \<open>null\<close> when the advertisement carries no name).\<close>

record device =
  dev_id :: string
  dev_name :: "string option"

text \<open>The value an adapter promise rejects with.\<close>

type_synonym exn = string

text \<open>How a promise settles: \<open>Inl\<close> is a rejection, \<open>Inr\<close> the resolved value.\<close>

type_synonym 'a settled = "exn + 'a"

definition SERVICE_UUID :: string where
  "SERVICE_UUID = ''000000ff-0000-1000-8000-00805f9b34fb''"

definition WRITE_CHARACTERISTIC :: string where
  "WRITE_CHARACTERISTIC = ''0000ff03-0000-1000-8000-00805f9b34fb''"

definition READ_ANGLE_CHARACTERISTIC :: string where
  "READ_ANGLE_CHARACTERISTIC = ''0000ff04-0000-1000-8000-00805f9b34fb''"

text \<open>The keys of the table \<open>MOTOR_COMMANDS\<close> and the array stored under each key.\<close>

datatype motor_command = FORWARD | REVERSE | STOP | START_BREATHING | STOP_BREATHING

fun MOTOR_COMMANDS :: "motor_command \<Rightarrow> nat list" where
  "MOTOR_COMMANDS FORWARD = [0x01, 0x03]"
| "MOTOR_COMMANDS REVERSE = [0x01, 0x01]"
| "MOTOR_COMMANDS STOP = [0x01, 0x00]"
| "MOTOR_COMMANDS START_BREATHING = [0x01, 0x01, 0x01]"
| "MOTOR_COMMANDS STOP_BREATHING = [0x01, 0x00, 0x01]"

text \<open>The values the handlers print on the console: a string, a byte array, \<open>null\<close>.\<close>

datatype js_value = Str string | Arr "nat list" | Null

text \<open>Every call the handlers make to the outside, in the order they make it.\<close>

datatype effect =
    Alert string string
  | ConsoleLog "js_value list"
  | ConsoleError "js_value list"
  | RequestMultiple
  | StartDeviceScan
  | StopDeviceScan
  | SetTimeout nat
  | Connect device
  | DiscoverAllServicesAndCharacteristics device
  | CancelConnection device
  | WriteCharacteristicWithResponseForService device string string string

record app_state =
  isScanning :: bool
  connectedDevice :: "device option"
  devices :: "device list"
  breathingMode :: bool

text \<open>What a handler leaves behind: how its promise settled, the next state, the calls made.\<close>

type_synonym 'a run = "'a settled \<times> app_state \<times> effect list"

subsection \<open>The transport framing\<close>

text \<open>
  \<open>Buffer.from(array)\<close> keeps the low eight bits of every entry, and
  \<open>toString('base64')\<close> is the padded base64 of RFC 4648. Both belong to the
  \<open>buffer\<close> package, not to this repository; they are written out so that the payload
  of a write is a concrete string.
\<close>

definition Buffer_from :: "nat list \<Rightarrow> nat list" where
  "Buffer_from command = map (\<lambda>n. n mod 256) command"

definition base64_alphabet :: string where
  "base64_alphabet = ''ABCDEFGHIJKLMNOPQRSTUVWXYZabcdefghijklmnopqrstuvwxyz0123456789+/''"

definition base64_digit :: "nat \<Rightarrow> char" where
  "base64_digit n = base64_alphabet ! (n mod 64)"

fun toString_base64 :: "nat list \<Rightarrow> string" where
  "toString_base64 [] = []"
| "toString_base64 [a] =
     [base64_digit (a div 4), base64_digit ((a mod 4) * 16), CHR ''='', CHR ''='']"
| "toString_base64 [a, b] =
     [base64_digit (a div 4), base64_digit ((a mod 4) * 16 + b div 16),
      base64_digit ((b mod 16) * 4), CHR ''='']"
| "toString_base64 (a # b # c # rest) =
     [base64_digit (a div 4), base64_digit ((a mod 4) * 16 + b div 16),
      base64_digit ((b mod 16) * 4 + c div 64), base64_digit (c mod 64)]
     @ toString_base64 rest"

subsection \<open>try / catch\<close>

text \<open>
  \<open>try { body } catch (error) { handler }\<close>: a rejection inside the body runs the
  handler on the state the body left; the calls of the handler follow those of the body.
\<close>

definition try_catch :: "'a run \<Rightarrow> (exn \<Rightarrow> app_state \<Rightarrow> 'a run) \<Rightarrow> 'a run" where
  "try_catch body handler =
     (case body of
        (Inl error, s', t) \<Rightarrow>
          (case handler error s' of (r, s'', t') \<Rightarrow> (r, s'', t @ t'))
      | (Inr v, s', t) \<Rightarrow> (Inr v, s', t))"

section \<open>The handlers\<close>

subsection \<open>Permissions and scanning\<close>

text \<open>The values of \<open>Platform.OS\<close>.\<close>

datatype platform = android | ios | macos | windows | web

datatype permission_status = GRANTED | DENIED | NEVER_ASK_AGAIN

text \<open>\<open>requestPermissions\<close>: on Android the three permissions are requested and all
  must come back granted; elsewhere nothing is asked.\<close>

definition requestPermissions ::
  "platform \<Rightarrow> permission_status list settled \<Rightarrow> bool settled \<times> effect list" where
  "requestPermissions os dialog =
     (if os = android then
        (case dialog of
           Inl e \<Rightarrow> (Inl e, [RequestMultiple])
         | Inr permissions \<Rightarrow>
             (Inr (list_all (\<lambda>status. status = GRANTED) permissions), [RequestMultiple]))
      else (Inr True, []))"

definition startScan :: "platform \<Rightarrow> permission_status list settled \<Rightarrow> app_state \<Rightarrow> unit run" where
  "startScan os dialog s =
     (case requestPermissions os dialog of
        (Inl e, t) \<Rightarrow> (Inl e, s, t)
      | (Inr permissionGranted, t) \<Rightarrow>
          if \<not> permissionGranted then
            (Inr (), s, t @ [Alert ''Error'' ''Bluetooth permissions are required to continue''])
          else if isScanning s then (Inr (), s, t)
          else
            (Inr (), s\<lparr>isScanning := True, devices := []\<rparr>,
             t @ [StartDeviceScan, SetTimeout 5000]))"

text \<open>The updater handed to \<open>setDevices\<close> inside the scan callback.\<close>

definition addDevice :: "device \<Rightarrow> device list \<Rightarrow> device list" where
  "addDevice device prevDevices =
     (if find (\<lambda>d. dev_id d = dev_id device) prevDevices = None
      then prevDevices @ [device]
      else prevDevices)"

text \<open>The callback of \<open>manager.startDeviceScan\<close> is called with an error or with a device.\<close>

datatype scan_event = ScanError exn | Advertisement device

fun scanCallback :: "scan_event \<Rightarrow> app_state \<Rightarrow> app_state \<times> effect list" where
  "scanCallback (ScanError error) s = (s\<lparr>isScanning := False\<rparr>, [ConsoleError [Str error]])"
| "scanCallback (Advertisement device) s =
     (if dev_name device = Some ''SYNC''
      then (s\<lparr>devices := addDevice device (devices s)\<rparr>, [])
      else (s, []))"

text \<open>The callback of the five-second timer.\<close>

definition scanTimeout :: "app_state \<Rightarrow> app_state \<times> effect list" where
  "scanTimeout s = (s\<lparr>isScanning := False\<rparr>, [StopDeviceScan])"

text \<open>A sequence of scan callbacks, delivered one after the other.\<close>

fun deliver :: "scan_event list \<Rightarrow> app_state \<Rightarrow> app_state" where
  "deliver [] s = s"
| "deliver (ev # evs) s = deliver evs (fst (scanCallback ev s))"

subsection \<open>Connecting and disconnecting\<close>

text \<open>\<open>device.name\<close> as a console argument, and inside a template string.\<close>

definition name_value :: "string option \<Rightarrow> js_value" where
  "name_value n = (case n of None \<Rightarrow> Null | Some x \<Rightarrow> Str x)"

definition show_name :: "string option \<Rightarrow> string" where
  "show_name n = (case n of None \<Rightarrow> ''null'' | Some x \<Rightarrow> x)"

text \<open>\<open>connectToDevice\<close>: \<open>conn\<close> is how \<open>device.connect()\<close> settles, \<open>disc\<close> how
  \<open>discoverAllServicesAndCharacteristics()\<close> does.\<close>

definition connectToDevice ::
  "device \<Rightarrow> device settled \<Rightarrow> unit settled \<Rightarrow> app_state \<Rightarrow> unit run" where
  "connectToDevice device conn disc s =
     try_catch
       (let connecting = ConsoleLog [Str ''Connecting to device:'', name_value (dev_name device)] in
        case conn of
          Inl e \<Rightarrow> (Inl e, s, [connecting, Connect device])
        | Inr connected \<Rightarrow>
            (case disc of
               Inl e \<Rightarrow>
                 (Inl e, s,
                  [connecting, Connect device, DiscoverAllServicesAndCharacteristics connected])
             | Inr _ \<Rightarrow>
                 (Inr (), s\<lparr>connectedDevice := Some connected\<rparr>,
                  [connecting, Connect device, DiscoverAllServicesAndCharacteristics connected,
                   Alert ''Success'' (''Connected to device '' @ show_name (dev_name device))])))
       (\<lambda>error s'.
          (Inr (), s',
           [ConsoleError [Str ''Connection error:'', Str error],
            Alert ''Error'' ''Failed to connect to device'']))"

text \<open>\<open>disconnectDevice\<close>: \<open>cancel\<close> is how \<open>cancelConnection()\<close> settles. There is no
  \<open>try\<close> around it.\<close>

definition disconnectDevice :: "unit settled \<Rightarrow> app_state \<Rightarrow> unit run" where
  "disconnectDevice cancel s =
     (case connectedDevice s of
        None \<Rightarrow> (Inr (), s, [])
      | Some connected \<Rightarrow>
          (case cancel of
             Inl e \<Rightarrow> (Inl e, s, [CancelConnection connected])
           | Inr _ \<Rightarrow>
               (Inr (), s\<lparr>connectedDevice := None\<rparr>,
                [CancelConnection connected,
                 Alert ''Success'' ''Device disconnected successfully''])))"

subsection \<open>Commands\<close>

text \<open>\<open>sendCommand\<close>: \<open>outcome\<close> is how the write-with-response settles (resolved once the
  peripheral has acknowledged, rejected otherwise).\<close>

definition sendCommand :: "nat list \<Rightarrow> unit settled \<Rightarrow> app_state \<Rightarrow> unit run" where
  "sendCommand command outcome s =
     (case connectedDevice s of
        None \<Rightarrow> (Inr (), s, [Alert ''Error'' ''Please connect to a device first''])
      | Some connected \<Rightarrow>
          try_catch
            (let base64Command = toString_base64 (Buffer_from command) in
             case outcome of
               Inl e \<Rightarrow>
                 (Inl e, s,
                  [WriteCharacteristicWithResponseForService connected
                     SERVICE_UUID WRITE_CHARACTERISTIC base64Command])
             | Inr _ \<Rightarrow>
                 (Inr (), s,
                  [WriteCharacteristicWithResponseForService connected
                     SERVICE_UUID WRITE_CHARACTERISTIC base64Command,
                   ConsoleLog [Str ''Command sent:'', Arr command]]))
            (\<lambda>error s'.
               (Inr (), s',
                [ConsoleError [Str ''Send command error:'', Str error],
                 Alert ''Error'' ''Failed to send command''])))"

text \<open>\<open>toggleBreathingMode\<close>: the flag is set to the negation of the value the handler
  was created with, after the awaited \<open>sendCommand\<close> has settled.\<close>

definition toggleBreathingMode :: "unit settled \<Rightarrow> app_state \<Rightarrow> unit run" where
  "toggleBreathingMode outcome s =
     try_catch
       (case (if breathingMode s
              then sendCommand (MOTOR_COMMANDS STOP_BREATHING) outcome s
              else sendCommand (MOTOR_COMMANDS START_BREATHING) outcome s) of
          (Inl e, s', t) \<Rightarrow> (Inl e, s', t)
        | (Inr _, s', t) \<Rightarrow> (Inr (), s'\<lparr>breathingMode := \<not> breathingMode s\<rparr>, t))
       (\<lambda>error s'. (Inr (), s', [Alert ''Error'' ''Failed to toggle breathing mode'']))"

section \<open>Notions used to state the properties\<close>

text \<open>The state of the first render: the initial values given to \<open>useState\<close>.\<close>

definition initial_state :: app_state where
  "initial_state =
     \<lparr>isScanning = False, connectedDevice = None, devices = [], breathingMode = False\<rparr>"

text \<open>The writes among the calls of a run.\<close>

fun is_write :: "effect \<Rightarrow> bool" where
  "is_write (WriteCharacteristicWithResponseForService _ _ _ _) = True"
| "is_write _ = False"

text \<open>The devices of the advertisements among the scan callbacks, in delivery order.\<close>

fun advertised :: "scan_event list \<Rightarrow> device list" where
  "advertised [] = []"
| "advertised (ScanError error # evs) = advertised evs"
| "advertised (Advertisement device # evs) = device # advertised evs"

text \<open>The name filter, as a predicate.\<close>

definition named_SYNC :: "device \<Rightarrow> bool" where
  "named_SYNC d = (dev_name d = Some ''SYNC'')"

text \<open>
  First-seen order, written from the words of the specification rather than from the
  code: of the advertisements with one id only the earliest is kept, and the kept ones
  stand in the order in which they arrived.
\<close>

fun first_seen :: "device list \<Rightarrow> device list" where
  "first_seen [] = []"
| "first_seen (d # ds) = d # first_seen (filter (\<lambda>e. dev_id e \<noteq> dev_id d) ds)"

text \<open>The list on the screen after \<open>startScan\<close> ran in state \<open>s\<close> and the scan
  callbacks \<open>evs\<close> were delivered.\<close>

definition discovered ::
  "platform \<Rightarrow> permission_status list settled \<Rightarrow> scan_event list \<Rightarrow> app_state \<Rightarrow> device list" where
  "discovered os dialog evs s = devices (deliver evs (fst (snd (startScan os dialog s))))"

text \<open>Peripherals and states of the scenarios.\<close>

definition peripheral_A :: device where
  "peripheral_A = \<lparr>dev_id = ''C4:4F:33:00:00:0A'', dev_name = Some ''SYNC''\<rparr>"

definition peripheral_B :: device where
  "peripheral_B = \<lparr>dev_id = ''C4:4F:33:00:00:0B'', dev_name = Some ''OTHER''\<rparr>"

definition peripheral_C :: device where
  "peripheral_C = \<lparr>dev_id = ''C4:4F:33:00:00:0C'', dev_name = Some ''sync''\<rparr>"

definition peripheral_D :: device where
  "peripheral_D = \<lparr>dev_id = ''C4:4F:33:00:00:0D'', dev_name = Some ''SYNC''\<rparr>"

definition peripheral_E :: device where
  "peripheral_E = \<lparr>dev_id = ''C4:4F:33:00:00:0E'', dev_name = None\<rparr>"

definition scan_scenario :: "scan_event list" where
  "scan_scenario =
     [Advertisement peripheral_A, Advertisement peripheral_B, Advertisement peripheral_C,
      Advertisement peripheral_D, Advertisement peripheral_A, Advertisement peripheral_E,
      Advertisement peripheral_D]"

definition connected_state :: app_state where
  "connected_state = initial_state\<lparr>connectedDevice := Some peripheral_A\<rparr>"

definition scanning_state :: app_state where
  "scanning_state = initial_state\<lparr>isScanning := True, devices := [peripheral_A]\<rparr>"

section \<open>The transport framing on known inputs\<close>

text \<open>The test vectors of RFC 4648, section 10 (the ASCII codes of "f", "fo", ..., "foobar").\<close>

lemma toString_base64_rfc4648:
  "toString_base64 [] = ''''"
  "toString_base64 [102] = ''Zg==''"
  "toString_base64 [102, 111] = ''Zm8=''"
  "toString_base64 [102, 111, 111] = ''Zm9v''"
  "toString_base64 [102, 111, 111, 98] = ''Zm9vYg==''"
  "toString_base64 [102, 111, 111, 98, 97] = ''Zm9vYmE=''"
  "toString_base64 [102, 111, 111, 98, 97, 114] = ''Zm9vYmFy''"
  by (simp_all add: base64_digit_def base64_alphabet_def)

lemma command_payloads:
  "toString_base64 (Buffer_from (MOTOR_COMMANDS FORWARD)) = ''AQM=''"
  "toString_base64 (Buffer_from (MOTOR_COMMANDS REVERSE)) = ''AQE=''"
  "toString_base64 (Buffer_from (MOTOR_COMMANDS STOP)) = ''AQA=''"
  "toString_base64 (Buffer_from (MOTOR_COMMANDS START_BREATHING)) = ''AQEB''"
  "toString_base64 (Buffer_from (MOTOR_COMMANDS STOP_BREATHING)) = ''AQAB''"
  by (simp_all add: Buffer_from_def base64_digit_def base64_alphabet_def)

section \<open>Sending a command\<close>

lemma sendCommand_settles: "fst (sendCommand command outcome s) = Inr ()"
  by (cases outcome) (simp_all add: sendCommand_def try_catch_def Let_def split: option.split)

lemma sendCommand_state: "fst (snd (sendCommand command outcome s)) = s"
  by (cases outcome) (simp_all add: sendCommand_def try_catch_def Let_def split: option.split)

lemma sendCommand_shape: "\<exists>t. sendCommand command outcome s = (Inr (), s, t)"
  using sendCommand_settles [of command outcome s] sendCommand_state [of command outcome s]
  by (cases "sendCommand command outcome s") simp

lemma sendCommand_connected:
  assumes "connectedDevice s = Some connected"
  shows "sendCommand command outcome s =
           (Inr (), s,
            WriteCharacteristicWithResponseForService connected SERVICE_UUID WRITE_CHARACTERISTIC
              (toString_base64 (Buffer_from command))
            # (case outcome of
                 Inl e \<Rightarrow>
                   [ConsoleError [Str ''Send command error:'', Str e],
                    Alert ''Error'' ''Failed to send command'']
               | Inr _ \<Rightarrow> [ConsoleLog [Str ''Command sent:'', Arr command]]))"
  using assms by (cases outcome) (simp_all add: sendCommand_def try_catch_def Let_def)

text \<open>
  With a connected device, \<open>sendCommand\<close> makes one call to the outside before any
  other: a write-with-response on the connected device, to the service 000000ff-... and
  the characteristic 0000ff03-..., whose payload is the base64 text of the command's
  bytes (AQM= for Forward). No second write follows. The line "Command sent" is printed
  exactly when the peripheral acknowledged, and a rejected write is reported by the alert
  "Failed to send command"; the promise resolves either way.
\<close>

lemma sendCommand_connected_writes_once:
  assumes "connectedDevice s = Some connected"
  shows "sendCommand command outcome s =
           (Inr (), s,
            WriteCharacteristicWithResponseForService connected SERVICE_UUID WRITE_CHARACTERISTIC
              (toString_base64 (Buffer_from command))
            # (case outcome of
                 Inl e \<Rightarrow>
                   [ConsoleError [Str ''Send command error:'', Str e],
                    Alert ''Error'' ''Failed to send command'']
               | Inr _ \<Rightarrow> [ConsoleLog [Str ''Command sent:'', Arr command]])) \<and>
         length (filter is_write (snd (snd (sendCommand command outcome s)))) = 1 \<and>
         (ConsoleLog [Str ''Command sent:'', Arr command]
            \<in> set (snd (snd (sendCommand command outcome s))) \<longleftrightarrow> outcome = Inr ()) \<and>
         SERVICE_UUID = ''000000ff-0000-1000-8000-00805f9b34fb'' \<and>
         WRITE_CHARACTERISTIC = ''0000ff03-0000-1000-8000-00805f9b34fb'' \<and>
         toString_base64 (Buffer_from (MOTOR_COMMANDS FORWARD)) = ''AQM=''"
proof -
  have "length (filter is_write (snd (snd (sendCommand command outcome s)))) = 1"
    by (cases outcome) (simp_all add: sendCommand_connected [OF assms])
  moreover have "ConsoleLog [Str ''Command sent:'', Arr command]
      \<in> set (snd (snd (sendCommand command outcome s))) \<longleftrightarrow> outcome = Inr ()"
    by (cases outcome) (simp_all add: sendCommand_connected [OF assms])
  ultimately show ?thesis
    using sendCommand_connected [OF assms, of command outcome] command_payloads(1)
    by (simp add: SERVICE_UUID_def WRITE_CHARACTERISTIC_def)
qed

lemma sendCommand_acknowledged_forward:
  "sendCommand (MOTOR_COMMANDS FORWARD) (Inr ()) connected_state =
     (Inr (), connected_state,
      [WriteCharacteristicWithResponseForService peripheral_A
         ''000000ff-0000-1000-8000-00805f9b34fb'' ''0000ff03-0000-1000-8000-00805f9b34fb''
         ''AQM='',
       ConsoleLog [Str ''Command sent:'', Arr [1, 3]]])"
proof -
  have h: "connectedDevice connected_state = Some peripheral_A"
    by (simp add: connected_state_def initial_state_def)
  show ?thesis
    using sendCommand_connected_writes_once [OF h, of "MOTOR_COMMANDS FORWARD" "Inr ()"]
    by simp
qed

text \<open>
  C4, evaluated on a run in which a device is connected and the peripheral does not
  acknowledge: the adapter rejects the write of Forward. The one write-with-response is
  made, to the service 000000ff-... and the characteristic 0000ff03-... with the payload
  AQM=, and the failure is shown in an alert; but the \<open>catch\<close> of \<open>sendCommand\<close> ends
  the call normally, so its promise resolves with the value it resolves with after an
  acknowledged write, and the awaiting caller sees a send that succeeded.
\<close>

theorem sendCommand_resolves_after_rejected_write:
  "sendCommand (MOTOR_COMMANDS FORWARD) (Inl ''Characteristic write failed'') connected_state =
     (Inr (), connected_state,
      [WriteCharacteristicWithResponseForService peripheral_A
         ''000000ff-0000-1000-8000-00805f9b34fb'' ''0000ff03-0000-1000-8000-00805f9b34fb''
         ''AQM='',
       ConsoleError [Str ''Send command error:'', Str ''Characteristic write failed''],
       Alert ''Error'' ''Failed to send command'']) \<and>
   fst (sendCommand (MOTOR_COMMANDS FORWARD) (Inl ''Characteristic write failed'')
          connected_state) =
   fst (sendCommand (MOTOR_COMMANDS FORWARD) (Inr ()) connected_state)"
proof -
  have h: "connectedDevice connected_state = Some peripheral_A"
    by (simp add: connected_state_def initial_state_def)
  show ?thesis
    using command_payloads(1)
    by (simp add: sendCommand_connected [OF h] SERVICE_UUID_def WRITE_CHARACTERISTIC_def
        del: MOTOR_COMMANDS.simps)
qed

text \<open>
  Without a connected device, \<open>sendCommand\<close> shows "Please connect to a device first"
  and does nothing else: no write is made and the state is the one it started from,
  whatever the command and whatever the adapter would have answered. Its promise
  resolves.
\<close>

lemma sendCommand_not_connected_run:
  assumes "connectedDevice s = None"
  shows "sendCommand command outcome s =
           (Inr (), s, [Alert ''Error'' ''Please connect to a device first'']) \<and>
         filter is_write (snd (snd (sendCommand command outcome s))) = []"
  using assms by (simp add: sendCommand_def)

text \<open>
  C5, evaluated on the run where no device is connected and the breathing button is
  pressed: \<open>sendCommand\<close> makes no write, leaves the state alone and shows its alert,
  but it returns normally instead of failing, so \<open>toggleBreathingMode\<close>, which awaits
  it inside a \<open>try\<close>, goes on and raises the breathing flag although nothing was sent.
\<close>

theorem sendCommand_not_connected_resolves:
  "connectedDevice initial_state = None \<and>
   sendCommand (MOTOR_COMMANDS START_BREATHING) (Inr ()) initial_state =
     (Inr (), initial_state, [Alert ''Error'' ''Please connect to a device first'']) \<and>
   toggleBreathingMode (Inr ()) initial_state =
     (Inr (), initial_state\<lparr>breathingMode := True\<rparr>,
      [Alert ''Error'' ''Please connect to a device first''])"
  by (simp add: toggleBreathingMode_def try_catch_def sendCommand_def initial_state_def)

text \<open>
  C10. The promise of \<open>sendCommand\<close> never rejects: for every command, every state and
  every answer of the adapter it resolves with the same value, so the value a caller
  awaits is the same after a rejected write as after an acknowledged one.
\<close>

theorem sendCommand_never_rejects:
  "fst (sendCommand command outcome s) = Inr () \<and>
   fst (sendCommand command (Inl e) s) = fst (sendCommand command (Inr ()) s)"
  by (simp add: sendCommand_settles)

section \<open>The command table\<close>

text \<open>
  C3. The command table maps every command to one fixed byte sequence:
  Forward to 01 03, Reverse to 01 01, Stop to 01 00, StartBreathing to 01 01 01 and
  StopBreathing to 01 00 01. The table is a function on a five-element type, so it is
  total and gives the same bytes at every call.
\<close>

theorem MOTOR_COMMANDS_table:
  "MOTOR_COMMANDS FORWARD = [0x01, 0x03] \<and>
   MOTOR_COMMANDS REVERSE = [0x01, 0x01] \<and>
   MOTOR_COMMANDS STOP = [0x01, 0x00] \<and>
   MOTOR_COMMANDS START_BREATHING = [0x01, 0x01, 0x01] \<and>
   MOTOR_COMMANDS STOP_BREATHING = [0x01, 0x00, 0x01]"
  by simp

section \<open>Breathing mode\<close>

text \<open>Whatever the adapter answers, the flag is flipped, and the handler of
  \<open>toggleBreathingMode\<close>'s own \<open>catch\<close> never runs.\<close>

lemma toggleBreathingMode_always_flips:
  "fst (snd (toggleBreathingMode outcome s)) = s\<lparr>breathingMode := \<not> breathingMode s\<rparr>"
proof -
  obtain t where "sendCommand (MOTOR_COMMANDS STOP_BREATHING) outcome s = (Inr (), s, t)"
    using sendCommand_shape by blast
  moreover obtain t' where
    "sendCommand (MOTOR_COMMANDS START_BREATHING) outcome s = (Inr (), s, t')"
    using sendCommand_shape by blast
  ultimately show ?thesis
    by (simp add: toggleBreathingMode_def try_catch_def del: MOTOR_COMMANDS.simps)
qed

lemma toggleBreathingMode_catch_unreachable:
  "Alert ''Error'' ''Failed to toggle breathing mode'' \<notin> set (snd (snd (toggleBreathingMode outcome s)))"
proof (cases "connectedDevice s")
  case None
  then show ?thesis
    by (simp add: toggleBreathingMode_def try_catch_def sendCommand_def)
next
  case (Some connected)
  show ?thesis
    by (cases outcome)
      (simp_all add: toggleBreathingMode_def try_catch_def sendCommand_connected [OF Some])
qed

text \<open>
  C1, evaluated on the run the claim is about: a device is connected, the flag is
  false and the adapter rejects the write. The StartBreathing payload AQEB is written
  and the failed write is reported by an alert, but \<open>sendCommand\<close> has swallowed the
  rejection, so the flag is true when the call returns.
\<close>

theorem toggleBreathingMode_flips_after_failed_write:
  "toggleBreathingMode (Inl ''Characteristic write failed'') connected_state =
     (Inr (), connected_state\<lparr>breathingMode := True\<rparr>,
      [WriteCharacteristicWithResponseForService peripheral_A
         ''000000ff-0000-1000-8000-00805f9b34fb'' ''0000ff03-0000-1000-8000-00805f9b34fb''
         ''AQEB'',
       ConsoleError [Str ''Send command error:'', Str ''Characteristic write failed''],
       Alert ''Error'' ''Failed to send command'']) \<and>
   breathingMode connected_state = False \<and>
   breathingMode (fst (snd (toggleBreathingMode (Inl ''Characteristic write failed'')
     connected_state))) = True"
proof -
  have h: "connectedDevice connected_state = Some peripheral_A"
    by (simp add: connected_state_def initial_state_def)
  have b: "breathingMode connected_state = False"
    by (simp add: connected_state_def initial_state_def)
  show ?thesis
    using b command_payloads(4)
    by (simp add: toggleBreathingMode_def try_catch_def sendCommand_connected [OF h]
        SERVICE_UUID_def WRITE_CHARACTERISTIC_def del: MOTOR_COMMANDS.simps)
qed

section \<open>Scanning\<close>

subsection \<open>Starting a scan\<close>

lemma requestPermissions_denied:
  "fst (requestPermissions os dialog) = Inr False \<Longrightarrow>
   requestPermissions os dialog = (Inr False, [RequestMultiple])"
  by (auto simp add: requestPermissions_def split: if_splits sum.splits)

lemma set_requestPermissions:
  "set (snd (requestPermissions os dialog)) \<subseteq> {RequestMultiple}"
  by (auto simp add: requestPermissions_def split: if_splits sum.splits)

lemma startScan_starts:
  "\<not> isScanning s \<Longrightarrow> fst (requestPermissions os dialog) = Inr True \<Longrightarrow>
   fst (snd (startScan os dialog s)) = s\<lparr>isScanning := True, devices := []\<rparr>"
  by (cases "requestPermissions os dialog") (simp add: startScan_def)

text \<open>
  C9. When the permission request comes back not granted, \<open>startScan\<close> reports
  "Bluetooth permissions are required to continue" and returns: the state is the one it
  started from, so the scanning flag is not raised and the device list is not cleared,
  and the adapter is not asked to scan.
\<close>

theorem startScan_permission_denied:
  assumes "fst (requestPermissions os dialog) = Inr False"
  shows "startScan os dialog s =
           (Inr (), s,
            [RequestMultiple, Alert ''Error'' ''Bluetooth permissions are required to continue'']) \<and>
         isScanning (fst (snd (startScan os dialog s))) = isScanning s \<and>
         devices (fst (snd (startScan os dialog s))) = devices s \<and>
         StartDeviceScan \<notin> set (snd (snd (startScan os dialog s)))"
  using requestPermissions_denied [OF assms] by (simp add: startScan_def)

theorem startScan_permission_denied_witness:
  "fst (requestPermissions android (Inr [GRANTED, DENIED, GRANTED])) = Inr False \<and>
   startScan android (Inr [GRANTED, DENIED, GRANTED]) initial_state =
     (Inr (), initial_state,
      [RequestMultiple, Alert ''Error'' ''Bluetooth permissions are required to continue'']) \<and>
   isScanning (fst (snd (startScan android (Inr [GRANTED, DENIED, GRANTED]) initial_state))) = False"
proof -
  have h: "fst (requestPermissions android (Inr [GRANTED, DENIED, GRANTED])) = Inr False"
    by (simp add: requestPermissions_def)
  show ?thesis
    using h startScan_permission_denied [OF h, of initial_state]
    by (simp add: initial_state_def)
qed

text \<open>
  C8. While a scan is in progress, \<open>startScan\<close> changes nothing: the state it leaves,
  scanning flag and device list included, is the state it started from; the only calls
  it can make are the permission request and, if that is refused, the permission alert,
  so no scan is started and no timer is set. With the permission granted it returns
  right after the permission request.
\<close>

theorem startScan_while_scanning:
  assumes "isScanning s"
  shows "fst (snd (startScan os dialog s)) = s \<and>
         set (snd (snd (startScan os dialog s)))
           \<subseteq> {RequestMultiple, Alert ''Error'' ''Bluetooth permissions are required to continue''} \<and>
         (fst (requestPermissions os dialog) = Inr True \<longrightarrow>
            startScan os dialog s = (Inr (), s, snd (requestPermissions os dialog)))"
proof (cases "requestPermissions os dialog")
  case (Pair r t)
  then have "set t \<subseteq> {RequestMultiple}"
    using set_requestPermissions [of os dialog] by simp
  with Pair assms show ?thesis
    by (cases r) (auto simp add: startScan_def)
qed

theorem startScan_while_scanning_witness:
  "isScanning scanning_state \<and>
   devices scanning_state = [peripheral_A] \<and>
   startScan android (Inr [GRANTED, GRANTED, GRANTED]) scanning_state =
     (Inr (), scanning_state, [RequestMultiple])"
proof -
  have h: "isScanning scanning_state"
    by (simp add: scanning_state_def)
  have g: "requestPermissions android (Inr [GRANTED, GRANTED, GRANTED]) = (Inr True, [RequestMultiple])"
    by (simp add: requestPermissions_def)
  show ?thesis
    using h g startScan_while_scanning [OF h, of android "Inr [GRANTED, GRANTED, GRANTED]"]
    by (simp add: scanning_state_def)
qed

subsection \<open>The list of discovered devices\<close>

lemma set_first_seen: "set (first_seen ds) \<subseteq> set ds"
  by (induction ds rule: first_seen.induct) auto

lemma distinct_first_seen: "distinct (map dev_id (first_seen ds))"
proof (induction ds rule: first_seen.induct)
  case 1
  show ?case by simp
next
  case (2 d ds)
  have "dev_id d \<notin> dev_id ` set (first_seen (filter (\<lambda>e. dev_id e \<noteq> dev_id d) ds))"
    using set_first_seen [of "filter (\<lambda>e. dev_id e \<noteq> dev_id d) ds"] by auto
  with 2 show ?case by simp
qed

lemma subseq_first_seen: "subseq (first_seen ds) ds"
proof (induction ds rule: first_seen.induct)
  case 1
  show ?case by simp
next
  case (2 d ds)
  have "subseq (filter (\<lambda>e. dev_id e \<noteq> dev_id d) ds) ds"
    by simp
  with 2 have "subseq (first_seen (filter (\<lambda>e. dev_id e \<noteq> dev_id d) ds)) ds"
    using subseq_order.order_trans by blast
  then show ?case by simp
qed

text \<open>The updater appends a device exactly when its id is new.\<close>

lemma addDevice_cases:
  "addDevice d ds = (if dev_id d \<in> dev_id ` set ds then ds else ds @ [d])"
proof -
  have "find (\<lambda>e. dev_id e = dev_id d) ds = None \<longleftrightarrow> dev_id d \<notin> dev_id ` set ds"
    by (simp add: find_None_iff image_iff) metis
  then show ?thesis
    by (simp add: addDevice_def)
qed

lemma scanCallback_unchanged:
  "dev_name d \<noteq> Some ''SYNC'' \<or> dev_id d \<in> dev_id ` set (devices s) \<Longrightarrow>
   fst (scanCallback (Advertisement d) s) = s"
  by (auto simp add: addDevice_cases)

text \<open>From any list: what the callbacks add is the first-seen list of the matching
  advertisements whose id the list did not have.\<close>

lemma devices_deliver:
  "devices (deliver evs s) =
     devices s @ first_seen (filter (\<lambda>d. dev_id d \<notin> dev_id ` set (devices s))
                               (filter named_SYNC (advertised evs)))"
proof (induction evs arbitrary: s)
  case Nil
  show ?case by simp
next
  case (Cons ev evs)
  show ?case
  proof (cases ev)
    case (ScanError error)
    then show ?thesis using Cons.IH [of "s\<lparr>isScanning := False\<rparr>"] by simp
  next
    case (Advertisement d)
    show ?thesis
    proof (cases "named_SYNC d \<and> dev_id d \<notin> dev_id ` set (devices s)")
      case False
      then have "devices (fst (scanCallback ev s)) = devices s"
        using Advertisement by (auto simp add: named_SYNC_def addDevice_cases)
      then show ?thesis
        using Cons.IH [of "fst (scanCallback ev s)"] False Advertisement by auto
    next
      case True
      let ?M = "filter named_SYNC (advertised evs)"
      have step: "devices (fst (scanCallback ev s)) = devices s @ [d]"
        using True Advertisement by (simp add: named_SYNC_def addDevice_cases)
      have "filter (\<lambda>e. dev_id e \<notin> dev_id ` set (devices s @ [d])) ?M =
            filter (\<lambda>e. dev_id e \<noteq> dev_id d)
              (filter (\<lambda>e. dev_id e \<notin> dev_id ` set (devices s)) ?M)"
        by (auto intro: filter_cong)
      then show ?thesis
        using Cons.IH [of "fst (scanCallback ev s)"] step True Advertisement by simp
    qed
  qed
qed

text \<open>
  C2. After \<open>startScan\<close> has started a scan (no scan was running and the permission
  was granted), whatever callbacks the adapter delivers, the device list has no two
  entries with the same id, every entry is named exactly SYNC, and the list is the
  first-seen list of the advertisements named SYNC, hence a subsequence of the
  advertisements in the order they arrived. An advertisement with another name (or none),
  or with an id the list already has, leaves the state as it was.
\<close>

theorem scan_devices_unique_first_seen:
  assumes "\<not> isScanning s" and "fst (requestPermissions os dialog) = Inr True"
  shows "distinct (map dev_id (discovered os dialog evs s)) \<and>
         (\<forall>d \<in> set (discovered os dialog evs s). dev_name d = Some ''SYNC'') \<and>
         discovered os dialog evs s = first_seen (filter named_SYNC (advertised evs)) \<and>
         subseq (discovered os dialog evs s) (advertised evs) \<and>
         (dev_name d \<noteq> Some ''SYNC'' \<or> dev_id d \<in> dev_id ` set (devices s')
            \<longrightarrow> fst (scanCallback (Advertisement d) s') = s')"
proof -
  have eq: "discovered os dialog evs s = first_seen (filter named_SYNC (advertised evs))"
    using assms by (simp add: discovered_def startScan_starts devices_deliver)
  have sub: "subseq (first_seen (filter named_SYNC (advertised evs))) (advertised evs)"
    using subseq_first_seen [of "filter named_SYNC (advertised evs)"]
      subseq_filter_left [of named_SYNC "advertised evs"]
      subseq_order.order_trans by blast
  have named: "\<forall>d \<in> set (first_seen (filter named_SYNC (advertised evs))). dev_name d = Some ''SYNC''"
    using set_first_seen [of "filter named_SYNC (advertised evs)"]
    by (auto simp add: named_SYNC_def)
  show ?thesis
    using eq sub named distinct_first_seen scanCallback_unchanged by simp
qed

theorem scan_devices_unique_first_seen_witness:
  "\<not> isScanning initial_state \<and>
   fst (requestPermissions android (Inr [GRANTED, GRANTED, GRANTED])) = Inr True \<and>
   discovered android (Inr [GRANTED, GRANTED, GRANTED]) scan_scenario initial_state =
     [peripheral_A, peripheral_D] \<and>
   distinct (map dev_id
     (discovered android (Inr [GRANTED, GRANTED, GRANTED]) scan_scenario initial_state)) \<and>
   subseq (discovered android (Inr [GRANTED, GRANTED, GRANTED]) scan_scenario initial_state)
     (advertised scan_scenario)"
proof -
  have h1: "\<not> isScanning initial_state"
    by (simp add: initial_state_def)
  have h2: "fst (requestPermissions android (Inr [GRANTED, GRANTED, GRANTED])) = Inr True"
    by (simp add: requestPermissions_def)
  have run: "discovered android (Inr [GRANTED, GRANTED, GRANTED]) scan_scenario initial_state =
      [peripheral_A, peripheral_D]"
    by (simp add: discovered_def startScan_def requestPermissions_def initial_state_def
        scan_scenario_def addDevice_def peripheral_A_def peripheral_B_def peripheral_C_def
        peripheral_D_def peripheral_E_def)
  note inst = scan_devices_unique_first_seen
    [OF h1 h2, where evs = scan_scenario and d = peripheral_B and s' = initial_state]
  from inst have dist: "distinct (map dev_id
      (discovered android (Inr [GRANTED, GRANTED, GRANTED]) scan_scenario initial_state))"
    by (rule conjunct1)
  from inst have sub: "subseq
      (discovered android (Inr [GRANTED, GRANTED, GRANTED]) scan_scenario initial_state)
      (advertised scan_scenario)"
    by blast
  show ?thesis
    by (intro conjI h1 h2 run dist sub)
qed

section \<open>Connecting\<close>

text \<open>
  C6. A connection attempt made with no device connected, in which \<open>device.connect()\<close>
  or the discovery of services and characteristics is rejected with reason \<open>e\<close>: the
  reason is printed, the failure is reported by the alert "Failed to connect to device",
  the state is the one the attempt started from, so no device is connected, and a
  following attempt that the adapter lets through connects its device.
\<close>

theorem connectToDevice_failure:
  assumes "connectedDevice s = None"
    and "conn = Inl e \<or> (\<exists>connected. conn = Inr connected \<and> disc = Inl e)"
  shows "connectToDevice device conn disc s =
           (Inr (), s,
            [ConsoleLog [Str ''Connecting to device:'', name_value (dev_name device)],
             Connect device]
            @ (case conn of
                 Inl _ \<Rightarrow> []
               | Inr connected \<Rightarrow> [DiscoverAllServicesAndCharacteristics connected])
            @ [ConsoleError [Str ''Connection error:'', Str e],
               Alert ''Error'' ''Failed to connect to device'']) \<and>
         connectedDevice (fst (snd (connectToDevice device conn disc s))) = None \<and>
         connectedDevice (fst (snd (connectToDevice device' (Inr connected') (Inr ())
            (fst (snd (connectToDevice device conn disc s)))))) = Some connected'"
  using assms by (auto simp add: connectToDevice_def try_catch_def)

theorem connectToDevice_failure_witness:
  "connectedDevice initial_state = None \<and>
   connectToDevice peripheral_A (Inr peripheral_A) (Inl ''Device disconnected'') initial_state =
     (Inr (), initial_state,
      [ConsoleLog [Str ''Connecting to device:'', Str ''SYNC''],
       Connect peripheral_A,
       DiscoverAllServicesAndCharacteristics peripheral_A,
       ConsoleError [Str ''Connection error:'', Str ''Device disconnected''],
       Alert ''Error'' ''Failed to connect to device'']) \<and>
   connectedDevice (fst (snd (connectToDevice peripheral_D (Inr peripheral_D) (Inr ())
     (fst (snd (connectToDevice peripheral_A (Inr peripheral_A) (Inl ''Device disconnected'')
        initial_state)))))) = Some peripheral_D"
proof -
  have h1: "connectedDevice initial_state = None"
    by (simp add: initial_state_def)
  have h2: "Inr peripheral_A = (Inl ''Device disconnected'' :: device settled) \<or>
      (\<exists>connected. (Inr peripheral_A :: device settled) = Inr connected \<and>
         (Inl ''Device disconnected'' :: unit settled) = Inl ''Device disconnected'')"
    by simp
  have n: "name_value (dev_name peripheral_A) = Str ''SYNC''"
    by (simp add: name_value_def peripheral_A_def)
  note inst = connectToDevice_failure
    [OF h1 h2, where device = peripheral_A and device' = peripheral_D
       and connected' = peripheral_D]
  from inst have failed:
    "connectToDevice peripheral_A (Inr peripheral_A) (Inl ''Device disconnected'') initial_state =
       (Inr (), initial_state,
        [ConsoleLog [Str ''Connecting to device:'', Str ''SYNC''],
         Connect peripheral_A,
         DiscoverAllServicesAndCharacteristics peripheral_A,
         ConsoleError [Str ''Connection error:'', Str ''Device disconnected''],
         Alert ''Error'' ''Failed to connect to device''])"
    by (simp add: n)
  from inst have again:
    "connectedDevice (fst (snd (connectToDevice peripheral_D (Inr peripheral_D) (Inr ())
       (fst (snd (connectToDevice peripheral_A (Inr peripheral_A) (Inl ''Device disconnected'')
          initial_state)))))) = Some peripheral_D"
    by blast
  show ?thesis
    by (intro conjI h1 failed again)
qed

section \<open>Disconnecting\<close>

text \<open>What \<open>disconnectDevice\<close> does when nothing is connected, and when the adapter
  lets the cancellation through.\<close>

lemma disconnectDevice_not_connected:
  "connectedDevice s = None \<Longrightarrow> disconnectDevice cancel s = (Inr (), s, [])"
  by (simp add: disconnectDevice_def)

lemma disconnectDevice_cancelled:
  "connectedDevice s = Some connected \<Longrightarrow>
   disconnectDevice (Inr ()) s =
     (Inr (), s\<lparr>connectedDevice := None\<rparr>,
      [CancelConnection connected, Alert ''Success'' ''Device disconnected successfully''])"
  by (simp add: disconnectDevice_def)

lemma disconnectDevice_twice:
  "connectedDevice s = Some connected \<Longrightarrow>
   disconnectDevice cancel (fst (snd (disconnectDevice (Inr ()) s))) =
     (Inr (), s\<lparr>connectedDevice := None\<rparr>, [])"
  by (simp add: disconnectDevice_def)

text \<open>
  C7, evaluated on a run in which a device is connected and the adapter rejects
  \<open>cancelConnection()\<close>: the rejection leaves \<open>disconnectDevice\<close> as it is, since no
  \<open>try\<close> surrounds the call, and the device is still recorded as connected.
\<close>

theorem disconnectDevice_rejected_cancel:
  "disconnectDevice (Inl ''Device is not connected'') connected_state =
     (Inl ''Device is not connected'', connected_state, [CancelConnection peripheral_A]) \<and>
   connectedDevice (fst (snd (disconnectDevice (Inl ''Device is not connected'')
     connected_state))) = Some peripheral_A"
  by (simp add: disconnectDevice_def connected_state_def initial_state_def)

end
